theory Spec2Isabelle
  imports Complex_Main "HOL-Library.Word" "HOL-Library.Log_Nat"
begin

section \<open>Machine types\<close>

text \<open>
  The primitives of \<^verbatim>\<open>src/tools/unix_c.c\<close> sit between the OCaml runtime and the C
  library. The integer widths are those of an LP64 host: a C \<^verbatim>\<open>int\<close> has 32 bits, a C
  \<^verbatim>\<open>long\<close> and \<^verbatim>\<open>time_t\<close> have 64 bits, and an OCaml \<^verbatim>\<open>int\<close> is the 63-bit
  payload of a tagged 64-bit word. Signed values are read with \<open>sint\<close>.
\<close>

type_synonym c_int = "32 word"
type_synonym c_long = "64 word"
type_synonym time_t = "64 word"
type_synonym caml_int = "63 word"

section \<open>OCaml runtime values and conversions\<close>

text \<open>
  What \<^verbatim>\<open>caml/mlvalues.h\<close> and \<^verbatim>\<open>caml/alloc.h\<close> provide: an OCaml value is an
  immediate integer or an allocated block (a string, a boxed float, a tuple).
  A boxed float holds the rational number the IEEE double denotes.
\<close>

datatype caml_value =
    Immediate caml_int
  | Caml_string string
  | Caml_double rat
  | Caml_block "caml_value list"

text \<open>\<^verbatim>\<open>Val_long(x)\<close> tags a C long: the OCaml integer keeps its low 63 bits.\<close>

definition Val_long :: "c_long \<Rightarrow> caml_value" where
  "Val_long x = Immediate (ucast x)"

definition Val_unit :: caml_value where
  "Val_unit = Immediate 0"

text \<open>
  \<^verbatim>\<open>Int_val(v)\<close> is \<^verbatim>\<open>(int) Long_val(v)\<close>: the cast to C \<^verbatim>\<open>int\<close> keeps the low 32
  bits of the OCaml integer.
\<close>

definition Int_val :: "caml_int \<Rightarrow> c_int" where
  "Int_val x = ucast x"

text \<open>\<^verbatim>\<open>Bool_val\<close> is \<^verbatim>\<open>Int_val\<close> on the immediates 0 (false) and 1 (true).\<close>

definition Bool_val :: "bool \<Rightarrow> c_int" where
  "Bool_val b = (if b then 1 else 0)"

definition caml_copy_string :: "string \<Rightarrow> caml_value" where
  "caml_copy_string s = Caml_string s"

definition caml_copy_double :: "rat \<Rightarrow> caml_value" where
  "caml_copy_double d = Caml_double d"

definition caml_alloc_tuple :: "nat \<Rightarrow> caml_value" where
  "caml_alloc_tuple n = Caml_block (replicate n Val_unit)"

text \<open>\<^verbatim>\<open>Store_field(b, i, v)\<close>; the source only stores into the fields it allocated.\<close>

fun Store_field :: "caml_value \<Rightarrow> nat \<Rightarrow> caml_value \<Rightarrow> caml_value" where
  "Store_field (Caml_block vs) i v = (if i < length vs then Caml_block (vs[i := v]) else Caml_block vs)"
| "Store_field b i v = b"

subsection \<open>The cast from time_t to double\<close>

text \<open>
  \<^verbatim>\<open>(double)time\<close> converts a signed 64-bit integer to the nearest IEEE double, ties to
  even. A double has a 53-bit significand: an integer of at most 53 bits is kept as it
  is, a longer one of \<open>53 + e\<close> bits is rounded to a multiple of \<open>2 ^ e\<close>.
\<close>

definition round_to_nearest_even :: "int \<Rightarrow> nat \<Rightarrow> int" where
  "round_to_nearest_even a e =
     (let q = a div 2 ^ e; r = a mod 2 ^ e; h = 2 ^ e div 2
      in if h < r \<or> (r = h \<and> odd q) then q + 1 else q)"

definition double_of_time_t :: "time_t \<Rightarrow> rat" where
  "double_of_time_t t =
     (let i = sint t; a = \<bar>i\<bar>; e = nat (bitlen a - 53)
      in if e = 0 then of_int i
         else of_int (sgn i * (round_to_nearest_even a e * 2 ^ e)))"

subsection \<open>Unix errors\<close>

text \<open>
  \<^verbatim>\<open>unix_error(code, fname, arg)\<close> of \<^verbatim>\<open>caml/unixsupport.h\<close> raises the OCaml
  exception \<^verbatim>\<open>Unix.Unix_error (code, fname, arg)\<close>; the argument \<^verbatim>\<open>Nothing\<close> becomes
  the empty string.
\<close>

datatype unix_errno = EINVAL | ENOMEM | EOVERFLOW | ERANGE

datatype caml_exception = Unix_error unix_errno string string

definition Nothing :: "string option" where
  "Nothing = None"

definition unix_error :: "unix_errno \<Rightarrow> string \<Rightarrow> string option \<Rightarrow> caml_exception" where
  "unix_error code fname arg = Unix_error code fname (case arg of None \<Rightarrow> [] | Some s \<Rightarrow> s)"

text \<open>A primitive either raises an OCaml exception or returns a value.\<close>

type_synonym caml_result = "caml_exception + caml_value"

section \<open>The process-wide state of the C library\<close>

datatype lc_category =
  LC_ALL | LC_COLLATE | LC_CTYPE | LC_MESSAGES | LC_MONETARY | LC_NUMERIC | LC_TIME

text \<open>The calls a primitive makes into the C library, in order.\<close>

datatype libc_call =
    Call_putenv string
  | Call_setenv string string c_int
  | Call_setlocale lc_category string
  | Call_tzset

text \<open>
  The host's timezone configuration as \<^verbatim>\<open>tzset\<close> reads it: the offset of standard
  time east of UTC in seconds (a zone file stores it as a 32-bit integer) and the two
  abbreviations.
\<close>

record tz_rules =
  utoff :: c_int
  std_abbrev :: string
  dst_abbrev :: string

record process =
  environ :: "string \<Rightarrow> string option"
  current_locale :: "lc_category \<Rightarrow> string"
  installed_locales :: "string list"
  system_tz :: tz_rules
  timezone :: c_long
  tzname :: "string \<times> string"
  calls :: "libc_call list"

text \<open>
  \<^verbatim>\<open>setenv(name, value, overwrite)\<close>: \<^verbatim>\<open>-1\<close> (EINVAL) for an empty name or one with
  \<^verbatim>\<open>=\<close> in it; otherwise the variable is set, unless it exists and \<^verbatim>\<open>overwrite\<close> is 0.
\<close>

definition setenv :: "string \<Rightarrow> string \<Rightarrow> c_int \<Rightarrow> process \<Rightarrow> process \<times> c_int" where
  "setenv name val overwrite p =
     (let p = p\<lparr>calls := calls p @ [Call_setenv name val overwrite]\<rparr>
      in if name = [] \<or> CHR ''='' \<in> set name then (p, - 1)
         else if overwrite \<noteq> 0 \<or> environ p name = None
           then (p\<lparr>environ := (environ p)(name \<mapsto> val)\<rparr>, 0)
         else (p, 0))"

text \<open>
  \<^verbatim>\<open>putenv("NAME=value")\<close> of the Windows C runtime: the text before the first
  \<^verbatim>\<open>=\<close> names the variable; an empty value removes it; a string with no \<^verbatim>\<open>=\<close> or an
  empty name is refused with \<^verbatim>\<open>-1\<close>.
\<close>

definition putenv :: "string \<Rightarrow> process \<Rightarrow> process \<times> c_int" where
  "putenv s p =
     (let p = p\<lparr>calls := calls p @ [Call_putenv s]\<rparr>;
          name = takeWhile (\<lambda>c. c \<noteq> CHR ''='') s;
          rest = dropWhile (\<lambda>c. c \<noteq> CHR ''='') s
      in if rest = [] \<or> name = [] then (p, - 1)
         else if tl rest = [] then (p\<lparr>environ := (environ p)(name := None)\<rparr>, 0)
         else (p\<lparr>environ := (environ p)(name \<mapsto> tl rest)\<rparr>, 0))"

text \<open>
  \<^verbatim>\<open>setlocale(category, name)\<close> with an explicit name: when the host has the locale,
  the category (every category for \<^verbatim>\<open>LC_ALL\<close>) takes it and the name is returned;
  otherwise nothing changes and the null pointer is returned.
\<close>

definition setlocale :: "lc_category \<Rightarrow> string \<Rightarrow> process \<Rightarrow> process \<times> string option" where
  "setlocale category name p =
     (let p = p\<lparr>calls := calls p @ [Call_setlocale category name]\<rparr>
      in if name \<in> set (installed_locales p)
         then (p\<lparr>current_locale :=
                   (if category = LC_ALL then (\<lambda>c. name)
                    else (current_locale p)(category := name))\<rparr>, Some name)
         else (p, None))"

text \<open>
  \<^verbatim>\<open>tzset()\<close> loads the host's timezone configuration into the C library's variables:
  \<^verbatim>\<open>timezone\<close> is the number of seconds west of UTC, the negated offset of the zone;
  \<^verbatim>\<open>tzname\<close> holds the two abbreviations.
\<close>

definition tzset :: "process \<Rightarrow> process" where
  "tzset p =
     p\<lparr>timezone := - scast (utoff (system_tz p)),
       tzname := (std_abbrev (system_tz p), dst_abbrev (system_tz p)),
       calls := calls p @ [Call_tzset]\<rparr>"

subsection \<open>The broken-down time of the C library\<close>

record tm =
  tm_sec :: c_int
  tm_min :: c_int
  tm_hour :: c_int
  tm_mday :: c_int
  tm_mon :: c_int
  tm_year :: c_int
  tm_wday :: c_int
  tm_yday :: c_int
  tm_isdst :: c_int

text \<open>
  \<^verbatim>\<open>mktime\<close> returns the calendar time of a broken-down local time, or \<^verbatim>\<open>(time_t)-1\<close>
  when the host has none for it. The host's conversion is a parameter: \<open>None\<close> is its
  signal that the local time has no absolute time.
\<close>

definition mktime :: "(tm \<Rightarrow> time_t option) \<Rightarrow> tm \<Rightarrow> time_t" where
  "mktime conv t = (case conv t of None \<Rightarrow> - 1 | Some c \<Rightarrow> c)"

section \<open>The primitives of unix\_c.c\<close>

text \<open>
  \<^verbatim>\<open>liquidsoap_set_locale\<close>, lines 22 to 36. \<open>win32\<close> is the compile-time switch
  \<^verbatim>\<open>#ifdef WIN32\<close>. The unit argument is not read, and the results of the three
  library calls are dropped.
\<close>

definition liquidsoap_set_locale :: "bool \<Rightarrow> process \<Rightarrow> process \<times> caml_result" where
  "liquidsoap_set_locale win32 p =
     (let p = (if win32
               then fst (putenv ''LC_ALL=C'' (fst (putenv ''LANG=C'' p)))
               else fst (setenv ''LC_ALL'' ''C'' 1 (fst (setenv ''LANG'' ''C'' 1 p))));
          p = fst (setlocale LC_ALL ''C'' p)
      in (p, Inr Val_unit))"

text \<open>\<^verbatim>\<open>liquidsoap_get_timezone\<close>, lines 38 to 41.\<close>

definition liquidsoap_get_timezone :: "process \<Rightarrow> process \<times> caml_result" where
  "liquidsoap_get_timezone p =
     (let p = tzset p
      in (p, Inr (Val_long (timezone p))))"

text \<open>\<^verbatim>\<open>liquidsoap_get_timezone_by_name\<close>, lines 43 to 51.\<close>

definition liquidsoap_get_timezone_by_name :: "process \<Rightarrow> process \<times> caml_result" where
  "liquidsoap_get_timezone_by_name p =
     (let p = tzset p;
          ret = caml_alloc_tuple 2;
          ret = Store_field ret 0 (caml_copy_string (fst (tzname p)));
          ret = Store_field ret 1 (caml_copy_string (snd (tzname p)))
      in (p, Inr ret))"

text \<open>
  The argument of \<^verbatim>\<open>liquidsoap_mktime\<close> is an OCaml record of seven fields. Fields 0
  to 5 are the integers the source reads with \<^verbatim>\<open>Int_val(Field(_tm, i))\<close>: seconds,
  minutes, hours, day of the month, month, year. Field 6 is a \<^verbatim>\<open>bool option\<close>:
  \<open>None\<close> is the immediate \<^verbatim>\<open>Val_int(0)\<close>, \<open>Some b\<close> a block whose field 0 is
  \<open>b\<close>.
\<close>

record local_time_spec =
  ts_sec :: caml_int
  ts_min :: caml_int
  ts_hour :: caml_int
  ts_mday :: caml_int
  ts_mon :: caml_int
  ts_year :: caml_int
  ts_isdst :: "bool option"

text \<open>
  Lines 58 to 66: the \<^verbatim>\<open>struct tm\<close> handed to \<^verbatim>\<open>mktime\<close>; \<open>ml_tm\<close> is the
  source's \<^verbatim>\<open>_tm\<close>.
\<close>

definition liquidsoap_mktime_tm :: "local_time_spec \<Rightarrow> tm" where
  "liquidsoap_mktime_tm ml_tm =
     \<lparr>tm_sec = Int_val (ts_sec ml_tm),
      tm_min = Int_val (ts_min ml_tm),
      tm_hour = Int_val (ts_hour ml_tm),
      tm_mday = Int_val (ts_mday ml_tm),
      tm_mon = Int_val (ts_mon ml_tm),
      tm_year = Int_val (ts_year ml_tm),
      tm_wday = 0,
      tm_yday = 0,
      tm_isdst = (case ts_isdst ml_tm of None \<Rightarrow> - 1 | Some b \<Rightarrow> Bool_val b)\<rparr>"

text \<open>\<^verbatim>\<open>liquidsoap_mktime\<close>, lines 53 to 71.\<close>

definition liquidsoap_mktime :: "(tm \<Rightarrow> time_t option) \<Rightarrow> local_time_spec \<Rightarrow> caml_result" where
  "liquidsoap_mktime conv ml_tm =
     (let tm = liquidsoap_mktime_tm ml_tm;
          time = mktime conv tm
      in if time = - 1 then Inl (unix_error ERANGE ''mktime'' Nothing)
         else Inr (caml_copy_double (double_of_time_t time)))"

section \<open>A host whose zone has one fixed offset\<close>

text \<open>
  The C library's \<^verbatim>\<open>mktime\<close> is no part of the repository. The examples below need one
  host; it is a host whose zone has a single offset from UTC and no daylight saving
  time. Its calendar is the proleptic Gregorian one.
\<close>

definition is_leap_year :: "int \<Rightarrow> bool" where
  "is_leap_year y = (y mod 4 = 0 \<and> (y mod 100 \<noteq> 0 \<or> y mod 400 = 0))"

text \<open>Days from 1970-01-01 to the first of January of the year \<open>y\<close>.\<close>

definition days_before_year :: "int \<Rightarrow> int" where
  "days_before_year y =
     365 * (y - 1970) + ((y - 1) div 4 - (y - 1) div 100 + (y - 1) div 400) - 477"

text \<open>Days from the first of January to the first of the month \<open>m\<close> (0 is January).\<close>

definition days_before_month :: "bool \<Rightarrow> nat \<Rightarrow> int" where
  "days_before_month leap m =
     [0, 31, 59, 90, 120, 151, 181, 212, 243, 273, 304, 334] ! m
       + (if leap \<and> 2 \<le> m then 1 else 0)"

text \<open>
  Modelled from the spec: the platform's conversion facility, \<^verbatim>\<open>mktime\<close> of the host's
  C library, which the repository calls and does not contain. For a zone of one fixed
  offset it is the spec's "standard calendar normalization" followed by the count of
  "seconds since the epoch (1970-01-01T00:00:00 UTC)": months beyond 0..11 carry into
  the year, and days, hours, minutes and seconds beyond their ranges carry through the
  sum. \<^verbatim>\<open>tm_wday\<close>, \<^verbatim>\<open>tm_yday\<close> and, in such a zone, \<^verbatim>\<open>tm_isdst\<close> are not read.
  The host signals that there is no absolute time when the count does not fit
  \<^verbatim>\<open>time_t\<close>.
\<close>

definition host_mktime :: "tz_rules \<Rightarrow> tm \<Rightarrow> time_t option" where
  "host_mktime zone t =
     (let mon = sint (tm_mon t);
          y = 1900 + sint (tm_year t) + mon div 12;
          m = nat (mon mod 12);
          days = days_before_year y + days_before_month (is_leap_year y) m
                   + (sint (tm_mday t) - 1);
          local_secs = days * 86400 + sint (tm_hour t) * 3600 + sint (tm_min t) * 60
                   + sint (tm_sec t);
          secs = local_secs - sint (utoff zone)
      in if - (2 ^ 63) \<le> secs \<and> secs < 2 ^ 63 then Some (word_of_int secs) else None)"

section \<open>Example hosts and inputs\<close>

definition utc_zone :: tz_rules where
  "utc_zone = \<lparr>utoff = 0, std_abbrev = ''UTC'', dst_abbrev = ''UTC''\<rparr>"

text \<open>A zone two hours east of UTC, with no daylight name.\<close>

definition utc_plus_2_zone :: tz_rules where
  "utc_plus_2_zone = \<lparr>utoff = 7200, std_abbrev = ''EET'', dst_abbrev = []\<rparr>"

text \<open>A process that inherited a French locale and has not read its timezone yet.\<close>

definition example_process :: "tz_rules \<Rightarrow> string list \<Rightarrow> process" where
  "example_process zone locales =
     \<lparr>environ = [''LANG'' \<mapsto> ''fr_FR.UTF-8''],
      current_locale = (\<lambda>c. ''fr_FR.UTF-8''),
      installed_locales = locales,
      system_tz = zone,
      timezone = 0,
      tzname = ([], []),
      calls = []\<rparr>"

text \<open>1970-01-01 00:00:00, standard time.\<close>

definition epoch_spec :: local_time_spec where
  "epoch_spec =
     \<lparr>ts_sec = 0, ts_min = 0, ts_hour = 0, ts_mday = 1, ts_mon = 0, ts_year = 70,
      ts_isdst = Some False\<rparr>"

text \<open>1969-12-31 23:59:59, standard time: one second before the epoch.\<close>

definition before_epoch_spec :: local_time_spec where
  "before_epoch_spec =
     \<lparr>ts_sec = 59, ts_min = 59, ts_hour = 23, ts_mday = 31, ts_mon = 11, ts_year = 69,
      ts_isdst = Some False\<rparr>"

text \<open>2000-02-29 12:00:00, a leap day, with the daylight flag left to the host.\<close>

definition leap_day_spec :: local_time_spec where
  "leap_day_spec =
     \<lparr>ts_sec = 0, ts_min = 0, ts_hour = 12, ts_mday = 29, ts_mon = 1, ts_year = 100,
      ts_isdst = None\<rparr>"

text \<open>1999-12-31 at hour 25, minute 30: the last day of a year.\<close>

definition new_years_eve_spec :: local_time_spec where
  "new_years_eve_spec =
     \<lparr>ts_sec = 0, ts_min = 30, ts_hour = 25, ts_mday = 31, ts_mon = 11, ts_year = 99,
      ts_isdst = Some False\<rparr>"




section \<open>Ranges\<close>

text \<open>An OCaml integer that a C \<^verbatim>\<open>int\<close> holds.\<close>

definition fits_c_int :: "caml_int \<Rightarrow> bool" where
  "fits_c_int x = (- (2 ^ 31) \<le> sint x \<and> sint x < 2 ^ 31)"

section \<open>Calendar normalization\<close>

text \<open>Days of the month \<open>m\<close> (0 is January).\<close>

definition days_in_month :: "bool \<Rightarrow> nat \<Rightarrow> int" where
  "days_in_month leap m =
     [31, 28, 31, 30, 31, 30, 31, 31, 30, 31, 30, 31] ! m
       + (if leap \<and> m = 1 then 1 else 0)"



text \<open>
  The day after a calendar date, at hour 1, minute 30: the first of the next month
  after the last day of a month, the first of January of the next year after the 31st
  of December.
\<close>

definition next_day_at_0130 :: "local_time_spec \<Rightarrow> local_time_spec" where
  "next_day_at_0130 s =
     (if sint (ts_mday s)
           < days_in_month (is_leap_year (1900 + sint (ts_year s))) (nat (sint (ts_mon s)))
      then s\<lparr>ts_hour := 1, ts_min := 30, ts_mday := ts_mday s + 1\<rparr>
      else if sint (ts_mon s) < 11
      then s\<lparr>ts_hour := 1, ts_min := 30, ts_mday := 1, ts_mon := ts_mon s + 1\<rparr>
      else s\<lparr>ts_hour := 1, ts_min := 30, ts_mday := 1, ts_mon := 0,
             ts_year := ts_year s + 1\<rparr>)"

text \<open>
  The local seconds that \<open>host_mktime\<close> counts for a \<^verbatim>\<open>struct tm\<close>, before the offset
  of the zone is taken off.
\<close>

definition local_seconds :: "tm \<Rightarrow> int" where
  "local_seconds t =
     (let mon = sint (tm_mon t);
          y = 1900 + sint (tm_year t) + mon div 12;
          m = nat (mon mod 12);
          days = days_before_year y + days_before_month (is_leap_year y) m
                   + (sint (tm_mday t) - 1)
      in days * 86400 + sint (tm_hour t) * 3600 + sint (tm_min t) * 60 + sint (tm_sec t))"

text \<open>
  The year that holds the day \<open>z\<close>, counted from 1970-01-01: 400 years have 146097
  days, so the quotient is at most one year off, and the two comparisons settle it.
\<close>

definition year_of_days :: "int \<Rightarrow> int" where
  "year_of_days z =
     (let y = 1970 + (400 * z) div 146097
      in if z < days_before_year y then y - 1
         else if days_before_year (y + 1) \<le> z then y + 1
         else y)"

text \<open>The month that holds the day \<open>d\<close> of a year, counted from the first of January.\<close>

definition month_of_yday :: "bool \<Rightarrow> int \<Rightarrow> nat" where
  "month_of_yday leap d =
     (if d < days_before_month leap 1 then 0
      else if d < days_before_month leap 2 then 1
      else if d < days_before_month leap 3 then 2
      else if d < days_before_month leap 4 then 3
      else if d < days_before_month leap 5 then 4
      else if d < days_before_month leap 6 then 5
      else if d < days_before_month leap 7 then 6
      else if d < days_before_month leap 8 then 7
      else if d < days_before_month leap 9 then 8
      else if d < days_before_month leap 10 then 9
      else if d < days_before_month leap 11 then 10
      else 11)"


definition normalize :: "local_time_spec \<Rightarrow> local_time_spec" where
  "normalize s =
     (let secs = local_seconds (liquidsoap_mktime_tm s);
          days = secs div 86400;
          rest = secs mod 86400;
          y = year_of_days days;
          yday = days - days_before_year y;
          m = month_of_yday (is_leap_year y) yday
      in \<lparr>ts_sec = word_of_int (rest mod 60),
          ts_min = word_of_int (rest div 60 mod 60),
          ts_hour = word_of_int (rest div 3600),
          ts_mday = word_of_int (yday - days_before_month (is_leap_year y) m + 1),
          ts_mon = word_of_int (int m),
          ts_year = word_of_int (y - 1900),
          ts_isdst = ts_isdst s\<rparr>)"

section \<open>Conversions between OCaml and C integers\<close>

lemma sint_Int_val: "sint (Int_val x) = signed_take_bit 31 (sint x)"
  unfolding Int_val_def by transfer (simp add: signed_take_bit_take_bit)

lemma sint_Int_val_wrap: "sint (Int_val x) = (sint x + 2 ^ 31) mod 2 ^ 32 - 2 ^ 31"
  by (simp add: sint_Int_val signed_take_bit_eq_take_bit_shift take_bit_eq_mod)

lemma sint_Int_val_fits: "fits_c_int x \<Longrightarrow> sint (Int_val x) = sint x"
  by (simp add: fits_c_int_def sint_Int_val signed_take_bit_int_eq_self)

lemma sint_Val_long_timezone:
  "sint (ucast (- scast (u :: c_int) :: c_long) :: caml_int) = - sint u"
proof -
  have a: "sint (scast u :: c_long) = sint u"
    by (simp add: sint_up_scast is_up)
  have b: "- (2 ^ 31) \<le> sint u" "sint u < 2 ^ 31"
    using sint_ge[of u] sint_lt[of u] by simp_all
  have c: "sint (- scast u :: c_long) = - sint u"
    using a b by (simp add: sint_word_minus signed_take_bit_int_eq_self)
  have "sint (ucast (- scast u :: c_long) :: caml_int)
      = signed_take_bit 62 (sint (- scast u :: c_long))"
    by transfer (simp add: signed_take_bit_take_bit)
  then show ?thesis
    using b c by (simp add: signed_take_bit_int_eq_self)
qed

section \<open>The cast to double\<close>

lemma double_of_time_t_exact:
  assumes "\<bar>sint t\<bar> < 2 ^ 53"
  shows "double_of_time_t t = of_int (sint t)"
proof -
  have "bitlen \<bar>sint t\<bar> \<le> 53"
    using assms by (simp add: bitlen_le_iff_power)
  then show ?thesis
    by (simp add: double_of_time_t_def Let_def)
qed

lemma double_of_time_t_integral: "\<exists>n::int. double_of_time_t t = of_int n"
proof (cases "nat (bitlen \<bar>sint t\<bar> - 53) = 0")
  case True
  then have "double_of_time_t t = of_int (sint t)"
    by (simp add: double_of_time_t_def Let_def)
  then show ?thesis ..
next
  case False
  then have "double_of_time_t t = of_int (sgn (sint t) *
      (round_to_nearest_even \<bar>sint t\<bar> (nat (bitlen \<bar>sint t\<bar> - 53))
         * 2 ^ nat (bitlen \<bar>sint t\<bar> - 53)))"
    by (simp add: double_of_time_t_def Let_def)
  then show ?thesis ..
qed

text \<open>Beyond 53 bits the cast rounds: a tie goes to the even significand.\<close>

lemma double_of_time_t_rounds:
  "double_of_time_t (2 ^ 53 + 1) = 2 ^ 53" "double_of_time_t (2 ^ 53 + 3) = 2 ^ 53 + 4"
proof -
  have "bitlen (2 ^ 53 + 1) \<le> 54" "\<not> bitlen (2 ^ 53 + 1) \<le> 53"
    "bitlen (2 ^ 53 + 3) \<le> 54" "\<not> bitlen (2 ^ 53 + 3) \<le> 53"
    by (simp_all add: bitlen_le_iff_power)
  then have "bitlen (2 ^ 53 + 1) = 54" "bitlen (2 ^ 53 + 3) = 54"
    by simp_all
  then show "double_of_time_t (2 ^ 53 + 1) = 2 ^ 53"
    "double_of_time_t (2 ^ 53 + 3) = 2 ^ 53 + 4"
    by (simp_all add: double_of_time_t_def round_to_nearest_even_def Let_def)
qed

section \<open>liquidsoap\_mktime\<close>

lemma liquidsoap_mktime_cases:
  "liquidsoap_mktime conv s =
     (case conv (liquidsoap_mktime_tm s) of
        None \<Rightarrow> Inl (Unix_error ERANGE ''mktime'' [])
      | Some t \<Rightarrow> if t = - 1 then Inl (Unix_error ERANGE ''mktime'' [])
                  else Inr (Caml_double (double_of_time_t t)))"
  by (simp add: liquidsoap_mktime_def mktime_def unix_error_def Nothing_def
      caml_copy_double_def Let_def split: option.split)

lemmas host_eval =
  host_mktime_def liquidsoap_mktime_tm_def sint_Int_val Bool_val_def days_before_year_def
  days_before_month_def is_leap_year_def Let_def

lemma host_utc_epoch: "host_mktime utc_zone (liquidsoap_mktime_tm epoch_spec) = Some 0"
  by (simp add: host_eval epoch_spec_def utc_zone_def)

lemma host_utc_before_epoch:
  "host_mktime utc_zone (liquidsoap_mktime_tm before_epoch_spec) = Some (- 1)"
  by (simp add: host_eval before_epoch_spec_def utc_zone_def)

lemma host_utc_minus_one_second:
  "host_mktime utc_zone (liquidsoap_mktime_tm (epoch_spec\<lparr>ts_sec := - 1\<rparr>)) = Some (- 1)"
  by (simp add: host_eval epoch_spec_def utc_zone_def)

lemma host_plus_2_leap_day:
  "host_mktime utc_plus_2_zone (liquidsoap_mktime_tm leap_day_spec) = Some 951818400"
  by (simp add: host_eval leap_day_spec_def utc_plus_2_zone_def)

lemma host_plus_2_before_epoch:
  "host_mktime utc_plus_2_zone
     (liquidsoap_mktime_tm (epoch_spec\<lparr>ts_sec := 59, ts_min := 59, ts_hour := 1\<rparr>)) = Some (- 1)"
  by (simp add: host_eval epoch_spec_def utc_plus_2_zone_def)

lemma host_utc_leap_day:
  "host_mktime utc_zone (liquidsoap_mktime_tm leap_day_spec) = Some 951825600"
  by (simp add: host_eval leap_day_spec_def utc_zone_def)

section \<open>Properties of liquidsoap\_mktime\<close>

text \<open>
  Claim C3. The daylight flag becomes \<^verbatim>\<open>tm_isdst\<close>: unspecified is -1, standard time is
  0, daylight time is 1; \<^verbatim>\<open>tm_wday\<close> and \<^verbatim>\<open>tm_yday\<close> are 0. Each of the six calendar
  fields reaches \<^verbatim>\<open>mktime\<close> as the C \<^verbatim>\<open>int\<close> of its low 32 bits: unchanged when it
  fits a C \<^verbatim>\<open>int\<close>, wrapped around otherwise. The result of the primitive depends on
  its argument through this \<^verbatim>\<open>struct tm\<close> only.
\<close>

theorem liquidsoap_mktime_tm_fields:
  "tm_isdst (liquidsoap_mktime_tm s)
     = (case ts_isdst s of None \<Rightarrow> - 1 | Some False \<Rightarrow> 0 | Some True \<Rightarrow> 1)
   \<and> tm_wday (liquidsoap_mktime_tm s) = 0
   \<and> tm_yday (liquidsoap_mktime_tm s) = 0
   \<and> sint (tm_sec (liquidsoap_mktime_tm s)) = (sint (ts_sec s) + 2 ^ 31) mod 2 ^ 32 - 2 ^ 31
   \<and> sint (tm_min (liquidsoap_mktime_tm s)) = (sint (ts_min s) + 2 ^ 31) mod 2 ^ 32 - 2 ^ 31
   \<and> sint (tm_hour (liquidsoap_mktime_tm s)) = (sint (ts_hour s) + 2 ^ 31) mod 2 ^ 32 - 2 ^ 31
   \<and> sint (tm_mday (liquidsoap_mktime_tm s)) = (sint (ts_mday s) + 2 ^ 31) mod 2 ^ 32 - 2 ^ 31
   \<and> sint (tm_mon (liquidsoap_mktime_tm s)) = (sint (ts_mon s) + 2 ^ 31) mod 2 ^ 32 - 2 ^ 31
   \<and> sint (tm_year (liquidsoap_mktime_tm s)) = (sint (ts_year s) + 2 ^ 31) mod 2 ^ 32 - 2 ^ 31
   \<and> (fits_c_int (ts_sec s) \<longrightarrow> sint (tm_sec (liquidsoap_mktime_tm s)) = sint (ts_sec s))
   \<and> (fits_c_int (ts_min s) \<longrightarrow> sint (tm_min (liquidsoap_mktime_tm s)) = sint (ts_min s))
   \<and> (fits_c_int (ts_hour s) \<longrightarrow> sint (tm_hour (liquidsoap_mktime_tm s)) = sint (ts_hour s))
   \<and> (fits_c_int (ts_mday s) \<longrightarrow> sint (tm_mday (liquidsoap_mktime_tm s)) = sint (ts_mday s))
   \<and> (fits_c_int (ts_mon s) \<longrightarrow> sint (tm_mon (liquidsoap_mktime_tm s)) = sint (ts_mon s))
   \<and> (fits_c_int (ts_year s) \<longrightarrow> sint (tm_year (liquidsoap_mktime_tm s)) = sint (ts_year s))
   \<and> (liquidsoap_mktime_tm s = liquidsoap_mktime_tm s'
        \<longrightarrow> liquidsoap_mktime conv s = liquidsoap_mktime conv s')"
proof -
  have isdst: "tm_isdst (liquidsoap_mktime_tm s)
     = (case ts_isdst s of None \<Rightarrow> - 1 | Some False \<Rightarrow> 0 | Some True \<Rightarrow> 1)"
    by (simp add: liquidsoap_mktime_tm_def Bool_val_def split: option.split bool.split)
  have days: "tm_wday (liquidsoap_mktime_tm s) = 0" "tm_yday (liquidsoap_mktime_tm s) = 0"
    by (simp_all add: liquidsoap_mktime_tm_def)
  have wrap:
    "sint (tm_sec (liquidsoap_mktime_tm s)) = (sint (ts_sec s) + 2 ^ 31) mod 2 ^ 32 - 2 ^ 31"
    "sint (tm_min (liquidsoap_mktime_tm s)) = (sint (ts_min s) + 2 ^ 31) mod 2 ^ 32 - 2 ^ 31"
    "sint (tm_hour (liquidsoap_mktime_tm s)) = (sint (ts_hour s) + 2 ^ 31) mod 2 ^ 32 - 2 ^ 31"
    "sint (tm_mday (liquidsoap_mktime_tm s)) = (sint (ts_mday s) + 2 ^ 31) mod 2 ^ 32 - 2 ^ 31"
    "sint (tm_mon (liquidsoap_mktime_tm s)) = (sint (ts_mon s) + 2 ^ 31) mod 2 ^ 32 - 2 ^ 31"
    "sint (tm_year (liquidsoap_mktime_tm s)) = (sint (ts_year s) + 2 ^ 31) mod 2 ^ 32 - 2 ^ 31"
    by (simp_all only: liquidsoap_mktime_tm_def tm.simps sint_Int_val_wrap)
  have same:
    "fits_c_int (ts_sec s) \<longrightarrow> sint (tm_sec (liquidsoap_mktime_tm s)) = sint (ts_sec s)"
    "fits_c_int (ts_min s) \<longrightarrow> sint (tm_min (liquidsoap_mktime_tm s)) = sint (ts_min s)"
    "fits_c_int (ts_hour s) \<longrightarrow> sint (tm_hour (liquidsoap_mktime_tm s)) = sint (ts_hour s)"
    "fits_c_int (ts_mday s) \<longrightarrow> sint (tm_mday (liquidsoap_mktime_tm s)) = sint (ts_mday s)"
    "fits_c_int (ts_mon s) \<longrightarrow> sint (tm_mon (liquidsoap_mktime_tm s)) = sint (ts_mon s)"
    "fits_c_int (ts_year s) \<longrightarrow> sint (tm_year (liquidsoap_mktime_tm s)) = sint (ts_year s)"
    by (simp_all add: liquidsoap_mktime_tm_def sint_Int_val_fits)
  have only: "liquidsoap_mktime_tm s = liquidsoap_mktime_tm s'
        \<longrightarrow> liquidsoap_mktime conv s = liquidsoap_mktime conv s'"
    by (simp add: liquidsoap_mktime_cases)
  from isdst days wrap same only show ?thesis
    by blast
qed

theorem liquidsoap_mktime_tm_fields_witness:
  "fits_c_int (ts_sec leap_day_spec) \<and> fits_c_int (ts_min leap_day_spec)
   \<and> fits_c_int (ts_hour leap_day_spec) \<and> fits_c_int (ts_mday leap_day_spec)
   \<and> fits_c_int (ts_mon leap_day_spec) \<and> fits_c_int (ts_year leap_day_spec)
   \<and> liquidsoap_mktime_tm leap_day_spec
       = liquidsoap_mktime_tm (leap_day_spec\<lparr>ts_sec := 4294967296\<rparr>)
   \<and> liquidsoap_mktime (host_mktime utc_zone) leap_day_spec
       = liquidsoap_mktime (host_mktime utc_zone) (leap_day_spec\<lparr>ts_sec := 4294967296\<rparr>)
   \<and> sint (tm_sec (liquidsoap_mktime_tm leap_day_spec)) = 0
   \<and> sint (tm_min (liquidsoap_mktime_tm leap_day_spec)) = 0
   \<and> sint (tm_hour (liquidsoap_mktime_tm leap_day_spec)) = 12
   \<and> sint (tm_mday (liquidsoap_mktime_tm leap_day_spec)) = 29
   \<and> sint (tm_mon (liquidsoap_mktime_tm leap_day_spec)) = 1
   \<and> sint (tm_year (liquidsoap_mktime_tm leap_day_spec)) = 100
   \<and> tm_isdst (liquidsoap_mktime_tm leap_day_spec) = - 1"
  using liquidsoap_mktime_tm_fields
    [of leap_day_spec "leap_day_spec\<lparr>ts_sec := 4294967296\<rparr>" "host_mktime utc_zone"]
  by (simp add: fits_c_int_def leap_day_spec_def liquidsoap_mktime_tm_def Int_val_def)

theorem liquidsoap_mktime_tm_fields_counterexample:
  "sint (ts_sec (epoch_spec\<lparr>ts_sec := 4294967296\<rparr>)) = 4294967296
   \<and> sint (tm_sec (liquidsoap_mktime_tm (epoch_spec\<lparr>ts_sec := 4294967296\<rparr>))) = 0"
  by (simp add: liquidsoap_mktime_tm_def epoch_spec_def sint_Int_val)

text \<open>
  Claim C1. The primitive raises its error exactly when \<^verbatim>\<open>mktime\<close> returns -1, which
  happens when the host signals that the local time has no absolute time and also when
  the absolute time is one second before the epoch. For every other absolute time the
  primitive returns that time cast to double, which is the time itself when it has at
  most 53 bits.
\<close>

theorem liquidsoap_mktime_fails_iff:
  "((\<exists>e. liquidsoap_mktime conv s = Inl e) \<longleftrightarrow> mktime conv (liquidsoap_mktime_tm s) = - 1)
   \<and> (mktime conv (liquidsoap_mktime_tm s) = - 1
        \<longleftrightarrow> conv (liquidsoap_mktime_tm s) = None \<or> conv (liquidsoap_mktime_tm s) = Some (- 1))
   \<and> (\<forall>t. conv (liquidsoap_mktime_tm s) = Some t \<and> t \<noteq> - 1
        \<longrightarrow> liquidsoap_mktime conv s = Inr (Caml_double (double_of_time_t t))
            \<and> (\<bar>sint t\<bar> < 2 ^ 53 \<longrightarrow> double_of_time_t t = of_int (sint t)))"
proof (cases "conv (liquidsoap_mktime_tm s)")
  case None
  then show ?thesis
    by (simp add: liquidsoap_mktime_cases mktime_def)
next
  case (Some c)
  then show ?thesis
    by (simp add: liquidsoap_mktime_cases mktime_def double_of_time_t_exact)
qed

theorem liquidsoap_mktime_fails_iff_witness:
  "host_mktime utc_plus_2_zone (liquidsoap_mktime_tm leap_day_spec) = Some 951818400
   \<and> (951818400 :: time_t) \<noteq> - 1
   \<and> \<bar>sint (951818400 :: time_t)\<bar> < 2 ^ 53
   \<and> liquidsoap_mktime (host_mktime utc_plus_2_zone) leap_day_spec = Inr (Caml_double 951818400)"
  using liquidsoap_mktime_fails_iff [of "host_mktime utc_plus_2_zone" leap_day_spec]
  by (simp add: host_plus_2_leap_day)

theorem liquidsoap_mktime_fails_iff_counterexample:
  "host_mktime utc_zone (liquidsoap_mktime_tm before_epoch_spec) = Some (- 1)
   \<and> liquidsoap_mktime (host_mktime utc_zone) before_epoch_spec
       = Inl (Unix_error ERANGE ''mktime'' [])"
  by (simp add: liquidsoap_mktime_cases host_utc_before_epoch)

text \<open>
  Claim C2. Whenever the primitive fails, the exception is
  \<^verbatim>\<open>Unix_error (ERANGE, "mktime", "")\<close>: it names the error code and the failing
  function, and its argument is the empty string, whatever the input was.
\<close>

theorem liquidsoap_mktime_error:
  "liquidsoap_mktime conv s = Inl e \<Longrightarrow> e = Unix_error ERANGE ''mktime'' []"
  by (auto simp: liquidsoap_mktime_cases split: option.splits if_splits)

theorem liquidsoap_mktime_error_witness:
  "liquidsoap_mktime (host_mktime utc_plus_2_zone)
     (epoch_spec\<lparr>ts_sec := 59, ts_min := 59, ts_hour := 1\<rparr>)
     = Inl (Unix_error ERANGE ''mktime'' [])"
proof -
  obtain e where failed: "liquidsoap_mktime (host_mktime utc_plus_2_zone)
      (epoch_spec\<lparr>ts_sec := 59, ts_min := 59, ts_hour := 1\<rparr>) = Inl e"
    by (simp add: liquidsoap_mktime_cases host_plus_2_before_epoch)
  from liquidsoap_mktime_error [OF failed] have "e = Unix_error ERANGE ''mktime'' []" .
  with failed show ?thesis
    by simp
qed

theorem liquidsoap_mktime_error_counterexample:
  "before_epoch_spec \<noteq> epoch_spec\<lparr>ts_sec := - 1\<rparr>
   \<and> liquidsoap_mktime (host_mktime utc_zone) before_epoch_spec
       = Inl (Unix_error ERANGE ''mktime'' [])
   \<and> liquidsoap_mktime (host_mktime utc_zone) (epoch_spec\<lparr>ts_sec := - 1\<rparr>)
       = Inl (Unix_error ERANGE ''mktime'' [])"
proof -
  have "before_epoch_spec \<noteq> epoch_spec\<lparr>ts_sec := - 1\<rparr>"
    by (simp add: before_epoch_spec_def epoch_spec_def)
  then show ?thesis
    by (simp add: liquidsoap_mktime_cases host_utc_before_epoch host_utc_minus_one_second)
qed

text \<open>
  Claim C9. A value the primitive returns is a boxed double that is the cast of the
  \<^verbatim>\<open>time_t\<close> of \<^verbatim>\<open>mktime\<close>; it is a whole number of seconds, and it is that
  \<^verbatim>\<open>time_t\<close> itself when the \<^verbatim>\<open>time_t\<close> has at most 53 bits.
\<close>

theorem liquidsoap_mktime_integral:
  "liquidsoap_mktime conv s = Inr v \<Longrightarrow>
     \<exists>t n. conv (liquidsoap_mktime_tm s) = Some t
       \<and> v = caml_copy_double (double_of_time_t t)
       \<and> double_of_time_t t = of_int n
       \<and> (\<bar>sint t\<bar> < 2 ^ 53 \<longrightarrow> n = sint t)"
proof -
  assume returned: "liquidsoap_mktime conv s = Inr v"
  then obtain t where t: "conv (liquidsoap_mktime_tm s) = Some t"
      and v: "v = caml_copy_double (double_of_time_t t)"
    by (auto simp: liquidsoap_mktime_cases caml_copy_double_def split: option.splits if_splits)
  obtain n :: int where n: "double_of_time_t t = of_int n"
    using double_of_time_t_integral by blast
  have "n = sint t" if "\<bar>sint t\<bar> < 2 ^ 53"
  proof -
    have "(of_int n :: rat) = of_int (sint t)"
      using n double_of_time_t_exact [OF that] by simp
    then show ?thesis
      by (simp only: of_int_eq_iff)
  qed
  with t v n show ?thesis
    by blast
qed

theorem liquidsoap_mktime_integral_witness:
  "liquidsoap_mktime (host_mktime utc_zone) leap_day_spec = Inr (Caml_double 951825600)
   \<and> host_mktime utc_zone (liquidsoap_mktime_tm leap_day_spec) = Some 951825600
   \<and> \<bar>sint (951825600 :: time_t)\<bar> < 2 ^ 53
   \<and> double_of_time_t 951825600 = of_int 951825600"
proof -
  have returned: "liquidsoap_mktime (host_mktime utc_zone) leap_day_spec
      = Inr (Caml_double 951825600)"
    by (simp add: liquidsoap_mktime_cases host_utc_leap_day double_of_time_t_exact)
  from liquidsoap_mktime_integral [OF returned]
  obtain t n where t: "host_mktime utc_zone (liquidsoap_mktime_tm leap_day_spec) = Some t"
    and n: "double_of_time_t t = of_int n" and exact: "\<bar>sint t\<bar> < 2 ^ 53 \<longrightarrow> n = sint t"
    by blast
  from t have "t = 951825600"
    by (simp add: host_utc_leap_day)
  with returned n exact show ?thesis
    by (simp add: host_utc_leap_day)
qed

text \<open>
  Claim C7. On a host whose zone is UTC, the local time 1970-01-01 00:00:00 (year field
  70, month 0, day 1) in standard time converts to 0.0.
\<close>

theorem liquidsoap_mktime_epoch:
  "utoff zone = 0 \<Longrightarrow>
     liquidsoap_mktime (host_mktime zone)
       \<lparr>ts_sec = 0, ts_min = 0, ts_hour = 0, ts_mday = 1, ts_mon = 0, ts_year = 70,
        ts_isdst = Some False\<rparr>
     = Inr (Caml_double 0)"
proof -
  assume utc: "utoff zone = 0"
  have "host_mktime zone (liquidsoap_mktime_tm
      \<lparr>ts_sec = 0, ts_min = 0, ts_hour = 0, ts_mday = 1, ts_mon = 0, ts_year = 70,
       ts_isdst = Some False\<rparr>) = Some 0"
    using utc by (simp add: host_eval)
  then show ?thesis
    by (simp add: liquidsoap_mktime_cases double_of_time_t_exact)
qed

theorem liquidsoap_mktime_epoch_witness:
  "utoff utc_zone = 0
   \<and> liquidsoap_mktime (host_mktime utc_zone)
       \<lparr>ts_sec = 0, ts_min = 0, ts_hour = 0, ts_mday = 1, ts_mon = 0, ts_year = 70,
        ts_isdst = Some False\<rparr>
     = Inr (Caml_double 0)"
proof -
  have utc: "utoff utc_zone = 0"
    by (simp add: utc_zone_def)
  from utc liquidsoap_mktime_epoch [OF utc] show ?thesis
    by simp
qed

section \<open>Calendar normalization on the host\<close>





















lemma next_day_new_years_eve:
  "next_day_at_0130 new_years_eve_spec =
     \<lparr>ts_sec = 0, ts_min = 30, ts_hour = 1, ts_mday = 1, ts_mon = 0, ts_year = 100,
      ts_isdst = Some False\<rparr>"
  by (simp add: next_day_at_0130_def new_years_eve_spec_def days_in_month_def)





text \<open>On the last day of 1999 the next day at 01:30 is what normalization gives.\<close>

lemma normalize_new_years_eve:
  "normalize new_years_eve_spec = next_day_at_0130 new_years_eve_spec"
proof -
  have "local_seconds (liquidsoap_mktime_tm new_years_eve_spec) = 946690200"
    by (simp add: local_seconds_def liquidsoap_mktime_tm_def sint_Int_val days_before_year_def
        days_before_month_def is_leap_year_def new_years_eve_spec_def Let_def)
  then have secs: "local_seconds (liquidsoap_mktime_tm new_years_eve_spec) div 86400 = 10957"
    "local_seconds (liquidsoap_mktime_tm new_years_eve_spec) mod 86400 = 5400"
    by simp_all
  have year: "year_of_days 10957 = 2000"
    by (simp add: year_of_days_def days_before_year_def Let_def)
  have leap: "is_leap_year 2000 = True"
    by (simp add: is_leap_year_def)
  have yday: "10957 - days_before_year 2000 = 0"
    by (simp add: days_before_year_def)
  have month: "month_of_yday True 0 = 0"
    by (simp add: month_of_yday_def days_before_month_def)
  have first: "days_before_month True 0 = 0"
    by (simp add: days_before_month_def)
  have flag: "ts_isdst new_years_eve_spec = Some False"
    by (simp add: new_years_eve_spec_def)
  show ?thesis
    unfolding normalize_def secs Let_def year leap yday month first flag next_day_new_years_eve
    by simp
qed










section \<open>Properties of the timezone primitives\<close>

lemma liquidsoap_get_timezone_eq:
  "liquidsoap_get_timezone p = (tzset p, Inr (Immediate (ucast (- scast (utoff (system_tz p)) :: c_long))))"
  by (simp add: liquidsoap_get_timezone_def tzset_def Val_long_def Let_def)

text \<open>
  Claim C4. The primitive calls \<^verbatim>\<open>tzset\<close> and then returns the variable
  \<^verbatim>\<open>timezone\<close> as an OCaml integer: the offset of standard time in seconds counted
  positive west of UTC, whatever the variable held before the call. It has no failure
  path. On a host two hours east of UTC the result is -7200.
\<close>

theorem liquidsoap_get_timezone_offset:
  "fst (liquidsoap_get_timezone p) = tzset p
   \<and> calls (fst (liquidsoap_get_timezone p)) = calls p @ [Call_tzset]
   \<and> snd (liquidsoap_get_timezone p) = Inr (Val_long (timezone (tzset p)))
   \<and> (\<forall>stale. snd (liquidsoap_get_timezone (p\<lparr>timezone := stale\<rparr>))
        = snd (liquidsoap_get_timezone p))
   \<and> (\<exists>n. snd (liquidsoap_get_timezone p) = Inr (Immediate n)
         \<and> sint n = - sint (utoff (system_tz p)))
   \<and> (sint (utoff (system_tz p)) = 7200
        \<longrightarrow> snd (liquidsoap_get_timezone p) = Inr (Immediate (- 7200)))"
proof -
  have east: "snd (liquidsoap_get_timezone p) = Inr (Immediate (- 7200))"
    if "sint (utoff (system_tz p)) = 7200"
  proof -
    have "sint (utoff (system_tz p)) = sint (7200 :: c_int)"
      using that by simp
    then have "utoff (system_tz p) = 7200"
      by (rule signed_word_eqI)
    then show ?thesis
      by (simp add: liquidsoap_get_timezone_eq)
  qed
  show ?thesis
    using east
    by (simp add: liquidsoap_get_timezone_eq sint_Val_long_timezone tzset_def Val_long_def)
qed

theorem liquidsoap_get_timezone_offset_witness:
  "sint (utoff (system_tz (example_process utc_plus_2_zone []))) = 7200
   \<and> timezone (example_process utc_plus_2_zone []) = 0
   \<and> snd (liquidsoap_get_timezone (example_process utc_plus_2_zone []))
       = Inr (Immediate (- 7200))"
proof -
  have east: "sint (utoff (system_tz (example_process utc_plus_2_zone []))) = 7200"
    by (simp add: example_process_def utc_plus_2_zone_def)
  have stale: "timezone (example_process utc_plus_2_zone []) = 0"
    by (simp add: example_process_def)
  from liquidsoap_get_timezone_offset [of "example_process utc_plus_2_zone []"] east stale
  show ?thesis
    by blast
qed

text \<open>
  Claim C8. The primitive calls \<^verbatim>\<open>tzset\<close> and returns the pair of the standard and the
  daylight abbreviation as \<^verbatim>\<open>tzset\<close> leaves them in \<^verbatim>\<open>tzname\<close>, each copied into an
  OCaml string of its own, whatever \<^verbatim>\<open>tzname\<close> held before the call; it has no
  failure path, and either string may be empty.
\<close>

theorem liquidsoap_get_timezone_by_name_pair:
  "fst (liquidsoap_get_timezone_by_name p) = tzset p
   \<and> calls (fst (liquidsoap_get_timezone_by_name p)) = calls p @ [Call_tzset]
   \<and> snd (liquidsoap_get_timezone_by_name p)
       = Inr (Caml_block [Caml_string (std_abbrev (system_tz p)),
                          Caml_string (dst_abbrev (system_tz p))])
   \<and> snd (liquidsoap_get_timezone_by_name p)
       = Inr (Caml_block [caml_copy_string (fst (tzname (tzset p))),
                          caml_copy_string (snd (tzname (tzset p)))])
   \<and> (\<forall>stale. snd (liquidsoap_get_timezone_by_name (p\<lparr>tzname := stale\<rparr>))
        = snd (liquidsoap_get_timezone_by_name p))
   \<and> snd (liquidsoap_get_timezone_by_name (example_process utc_plus_2_zone []))
       = Inr (Caml_block [Caml_string ''EET'', Caml_string []])
   \<and> snd (liquidsoap_get_timezone_by_name
            (example_process \<lparr>utoff = 0, std_abbrev = [], dst_abbrev = []\<rparr> []))
       = Inr (Caml_block [Caml_string [], Caml_string []])"
  by (simp add: liquidsoap_get_timezone_by_name_def tzset_def caml_alloc_tuple_def
      caml_copy_string_def Val_unit_def Let_def example_process_def utc_plus_2_zone_def
      numeral_2_eq_2)

section \<open>Properties of liquidsoap\_set\_locale\<close>

lemma setenv_overwrite:
  "name \<noteq> [] \<Longrightarrow> CHR ''='' \<notin> set name \<Longrightarrow>
     setenv name val 1 p
       = (p\<lparr>calls := calls p @ [Call_setenv name val 1],
            environ := (environ p)(name \<mapsto> val)\<rparr>, 0)"
  by (simp add: setenv_def Let_def)

lemma putenv_LANG:
  "putenv ''LANG=C'' p
     = (p\<lparr>calls := calls p @ [Call_putenv ''LANG=C''],
          environ := (environ p)(''LANG'' \<mapsto> ''C'')\<rparr>, 0)"
  by (simp add: putenv_def Let_def)

lemma putenv_LC_ALL:
  "putenv ''LC_ALL=C'' p
     = (p\<lparr>calls := calls p @ [Call_putenv ''LC_ALL=C''],
          environ := (environ p)(''LC_ALL'' \<mapsto> ''C'')\<rparr>, 0)"
  by (simp add: putenv_def Let_def)

text \<open>A locale the host does not have is refused: the null pointer, and no change.\<close>

lemma setlocale_refused:
  "name \<notin> set (installed_locales p) \<Longrightarrow>
     snd (setlocale category name p) = None
     \<and> current_locale (fst (setlocale category name p)) = current_locale p"
  by (simp add: setlocale_def Let_def)

lemma setlocale_LC_ALL:
  "name \<in> set (installed_locales p) \<Longrightarrow>
     snd (setlocale LC_ALL name p) = Some name
     \<and> current_locale (fst (setlocale LC_ALL name p)) = (\<lambda>c. name)"
  by (simp add: setlocale_def Let_def)

lemma liquidsoap_set_locale_state:
  "fst (liquidsoap_set_locale win32 p)
     = fst (setlocale LC_ALL ''C''
         (p\<lparr>calls := calls p @
               (if win32 then [Call_putenv ''LANG=C'', Call_putenv ''LC_ALL=C'']
                else [Call_setenv ''LANG'' ''C'' 1, Call_setenv ''LC_ALL'' ''C'' 1]),
            environ := (environ p)(''LANG'' \<mapsto> ''C'', ''LC_ALL'' \<mapsto> ''C'')\<rparr>))"
  by (simp add: liquidsoap_set_locale_def setenv_overwrite putenv_LANG putenv_LC_ALL Let_def)

text \<open>
  Claim C5. Every call leaves \<^verbatim>\<open>LANG\<close> and \<^verbatim>\<open>LC_ALL\<close> set to \<^verbatim>\<open>C\<close> in the environment
  and touches no other variable; it makes the two environment calls and then exactly
  one call \<^verbatim>\<open>setlocale(LC_ALL, "C")\<close>, after which, on a host that has the locale
  \<^verbatim>\<open>C\<close>, every category is \<^verbatim>\<open>C\<close>.
\<close>

theorem liquidsoap_set_locale_effect:
  "environ (fst (liquidsoap_set_locale win32 p)) ''LANG'' = Some ''C''
   \<and> environ (fst (liquidsoap_set_locale win32 p)) ''LC_ALL'' = Some ''C''
   \<and> (\<forall>name. name \<noteq> ''LANG'' \<and> name \<noteq> ''LC_ALL''
        \<longrightarrow> environ (fst (liquidsoap_set_locale win32 p)) name = environ p name)
   \<and> calls (fst (liquidsoap_set_locale win32 p))
       = calls p
         @ (if win32 then [Call_putenv ''LANG=C'', Call_putenv ''LC_ALL=C'']
            else [Call_setenv ''LANG'' ''C'' 1, Call_setenv ''LC_ALL'' ''C'' 1])
         @ [Call_setlocale LC_ALL ''C'']
   \<and> (''C'' \<in> set (installed_locales p)
        \<longrightarrow> (\<forall>c. current_locale (fst (liquidsoap_set_locale win32 p)) c = ''C''))"
  by (simp add: liquidsoap_set_locale_state setlocale_def Let_def)

theorem liquidsoap_set_locale_effect_witness:
  "''TZ'' \<noteq> ''LANG'' \<and> ''TZ'' \<noteq> ''LC_ALL''
   \<and> ''C'' \<in> set (installed_locales (example_process utc_zone [''fr_FR.UTF-8'', ''C'']))
   \<and> current_locale (example_process utc_zone [''fr_FR.UTF-8'', ''C'']) LC_NUMERIC
       = ''fr_FR.UTF-8''
   \<and> current_locale
        (fst (liquidsoap_set_locale False (example_process utc_zone [''fr_FR.UTF-8'', ''C''])))
        LC_NUMERIC = ''C''
   \<and> environ
        (fst (liquidsoap_set_locale False (example_process utc_zone [''fr_FR.UTF-8'', ''C''])))
        ''TZ'' = None
   \<and> environ
        (fst (liquidsoap_set_locale False (example_process utc_zone [''fr_FR.UTF-8'', ''C''])))
        ''LANG'' = Some ''C''"
  using liquidsoap_set_locale_effect [of False "example_process utc_zone [''fr_FR.UTF-8'', ''C'']"]
  by (simp add: example_process_def)

text \<open>
  Claim C10. Every call returns the unit value and raises nothing. That holds also on
  a host without the locale \<^verbatim>\<open>C\<close>, where \<^verbatim>\<open>setlocale\<close> fails and the locale of the
  process stays as it was: the primitive does not look at what \<^verbatim>\<open>setlocale\<close> returns.
\<close>

theorem liquidsoap_set_locale_total:
  "snd (liquidsoap_set_locale win32 p) = Inr Val_unit
   \<and> (''C'' \<notin> set (installed_locales p)
        \<longrightarrow> (\<forall>q. installed_locales q = installed_locales p
                  \<longrightarrow> snd (setlocale LC_ALL ''C'' q) = None)
            \<and> current_locale (fst (liquidsoap_set_locale win32 p)) = current_locale p
            \<and> snd (liquidsoap_set_locale win32 p) = Inr Val_unit)"
proof -
  have unit: "snd (liquidsoap_set_locale win32 p) = Inr Val_unit"
    by (simp add: liquidsoap_set_locale_def Let_def)
  have "current_locale (fst (liquidsoap_set_locale win32 p)) = current_locale p"
    if "''C'' \<notin> set (installed_locales p)"
    using that by (simp add: liquidsoap_set_locale_state setlocale_def Let_def)
  with unit show ?thesis
    by (simp add: setlocale_refused)
qed

theorem liquidsoap_set_locale_total_witness:
  "''C'' \<notin> set (installed_locales (example_process utc_zone [''fr_FR.UTF-8'']))
   \<and> installed_locales
        (fst (putenv ''LC_ALL=C'' (fst (putenv ''LANG=C''
          (example_process utc_zone [''fr_FR.UTF-8''])))))
       = installed_locales (example_process utc_zone [''fr_FR.UTF-8''])
   \<and> snd (setlocale LC_ALL ''C''
        (fst (putenv ''LC_ALL=C'' (fst (putenv ''LANG=C''
          (example_process utc_zone [''fr_FR.UTF-8''])))))) = None
   \<and> current_locale
        (fst (liquidsoap_set_locale True (example_process utc_zone [''fr_FR.UTF-8''])))
        LC_NUMERIC = ''fr_FR.UTF-8''
   \<and> snd (liquidsoap_set_locale True (example_process utc_zone [''fr_FR.UTF-8'']))
       = Inr (Immediate 0)"
proof -
  have absent: "''C'' \<notin> set (installed_locales (example_process utc_zone [''fr_FR.UTF-8'']))"
    by (simp add: example_process_def)
  have same: "installed_locales
      (fst (putenv ''LC_ALL=C'' (fst (putenv ''LANG=C''
        (example_process utc_zone [''fr_FR.UTF-8''])))))
      = installed_locales (example_process utc_zone [''fr_FR.UTF-8''])"
    by (simp add: putenv_LANG putenv_LC_ALL)
  from liquidsoap_set_locale_total [of True "example_process utc_zone [''fr_FR.UTF-8'']"]
    absent same
  show ?thesis
    by (simp add: example_process_def Val_unit_def)
qed

end
